theory Spec2Isabelle
  imports Main
begin

section \<open>Strings\<close>

text \<open>
  A JavaScript string is modelled as a \<^typ>\<open>string\<close>; a \<^typ>\<open>char\<close> stands for a code unit
  below 256. \<open>String.prototype.trim\<close> removes white space and line terminators at both
  ends; below 256 these are TAB, LF, VT, FF, CR, SPACE and NBSP.
\<close>

definition is_space :: "char \<Rightarrow> bool" where
  "is_space c \<longleftrightarrow>
     c \<in> set [CHR 0x09, CHR 0x0A, CHR 0x0B, CHR 0x0C, CHR 0x0D, CHR 0x20, CHR 0xA0]"

definition trim :: "string \<Rightarrow> string" where
  "trim s = rev (dropWhile is_space (rev (dropWhile is_space s)))"

text \<open>\<open>s.split(sep)\<close> for a separator of one character: \<open>cur\<close> is the piece being read.\<close>

fun split_from :: "char \<Rightarrow> string \<Rightarrow> string \<Rightarrow> string list" where
  "split_from sep cur [] = [cur]"
| "split_from sep cur (c # cs) =
     (if c = sep then cur # split_from sep [] cs else split_from sep (cur @ [c]) cs)"

definition split :: "char \<Rightarrow> string \<Rightarrow> string list" where
  "split sep s = split_from sep [] s"

text \<open>\<open>parts.join(sep)\<close>.\<close>

fun join_with :: "string \<Rightarrow> string list \<Rightarrow> string" where
  "join_with sep [] = []"
| "join_with sep [p] = p"
| "join_with sep (p # q # ps) = p @ sep @ join_with sep (q # ps)"

definition startsWith :: "string \<Rightarrow> string \<Rightarrow> bool" where
  "startsWith s p \<longleftrightarrow> take (length p) s = p"

text \<open>
  An unanchored regular expression is tried at every start index from the left, the end of
  the string included; \<open>here\<close> is the match of the pattern at one start index.
\<close>

fun regex_search :: "(string \<Rightarrow> 'a option) \<Rightarrow> string \<Rightarrow> 'a option" where
  "regex_search here [] = here []"
| "regex_search here (c # cs) =
     (case here (c # cs) of Some r \<Rightarrow> Some r | None \<Rightarrow> regex_search here cs)"

text \<open>The regular expression dot: any character but a line terminator.\<close>

definition is_dot :: "char \<Rightarrow> bool" where
  "is_dot c \<longleftrightarrow> c \<noteq> CHR 0x0A \<and> c \<noteq> CHR 0x0D"

text \<open>
  \<open>([^x]+)x\<close> at the head of \<open>s\<close>: the longest run of characters other than \<open>x\<close>, which
  must not be empty and must be followed by \<open>x\<close>. A shorter run is followed by a
  character of the run, never by \<open>x\<close>, so backtracking finds nothing else. The result is
  the group and the rest after \<open>x\<close>.
\<close>

definition run_until :: "char \<Rightarrow> string \<Rightarrow> (string \<times> string) option" where
  "run_until x s =
     (let g = takeWhile (\<lambda>c. c \<noteq> x) s; r = dropWhile (\<lambda>c. c \<noteq> x) s
      in if g = [] \<or> r = [] then None else Some (g, tl r))"

section \<open>Errors, console output and effects\<close>

datatype error =
    TypeError
  | Failure string
  | CommitsFailed string error
  | DecodeFailed string error

text \<open>
  \<open>TypeError\<close> is a property read or a call on \<open>undefined\<close> or \<open>null\<close>, or a call of
  something that is no function. \<open>Failure\<close> is an error thrown by a library or the
  platform (file system, subprocess, parser, HTTP client) with its message. The other two
  are the \<open>new Error(...)\<close> of \<open>cmdCommits\<close> and of the manifest loop, with the path
  and the error they embed.
\<close>

datatype cfg_value = CfgString string | CfgNonString

record commit =
  sha :: string
  subject :: string

text \<open>What is handed to \<open>console.log\<close> or \<open>console.error\<close>, one item per call.\<close>

datatype logged =
    LogStr string
  | LogCfg "cfg_value option"
  | LogErr error
  | LogArgs string bool bool
  | LogKeys "string list"
  | LogJson "(string \<times> string list) list"

text \<open>
  A computation that writes to the console and returns or throws: the items logged so
  far, and the error (\<open>Inl\<close>) or the value.
\<close>

type_synonym 'a run = "logged list \<times> (error + 'a)"

definition ret :: "'a \<Rightarrow> 'a run" where
  "ret v = ([], Inr v)"

definition throw :: "error \<Rightarrow> 'a run" where
  "throw e = ([], Inl e)"

definition lift :: "error + 'a \<Rightarrow> 'a run" where
  "lift r = ([], r)"

definition console_log :: "logged \<Rightarrow> unit run" where
  "console_log x = ([x], Inr ())"

definition and_then :: "'a run \<Rightarrow> ('a \<Rightarrow> 'b run) \<Rightarrow> 'b run" where
  "and_then m f =
     (case m of
        (out, Inl e) \<Rightarrow> (out, Inl e)
      | (out, Inr v) \<Rightarrow> (case f v of (out', r) \<Rightarrow> (out @ out', r)))"

text \<open>\<open>try { m } catch (err) { h(err) }\<close>.\<close>

definition try_catch :: "'a run \<Rightarrow> (error \<Rightarrow> 'a run) \<Rightarrow> 'a run" where
  "try_catch m h =
     (case m of
        (out, Inl e) \<Rightarrow> (case h e of (out', r) \<Rightarrow> (out @ out', r))
      | (out, Inr v) \<Rightarrow> (out, Inr v))"

text \<open>
  The libraries and the platform the program calls are parameters of the model:
  \<open>path.join\<close>, \<open>parseGitConfig.sync\<close> (by the path of the file), the promisified
  \<open>child_process.exec\<close> (by command line and working directory, giving the standard
  output), the two \<open>chalk\<close> colours, the directory tree found at a path,
  \<open>toml.parse(fs.readFileSync(file))\<close>, \<open>fs.readFileSync(file).toString("utf-8")\<close>
  and \<open>axios.get(url)\<close>, of which the program reads \<open>data.sha\<close> only (\<open>None\<close> when
  the body has no such field).
\<close>

datatype fsnode =
    File
  | Other
  | Directory "(string \<times> fsnode) list"
  | Unreadable string

text \<open>
  A directory lists its entries by name, in the order \<open>readdir\<close> reports them;
  \<open>Unreadable\<close> is a directory on which \<open>readdir\<close> fails with the given message, and
  \<open>Other\<close> an entry that is neither a regular file nor a directory.
\<close>

datatype toml =
    TString string
  | TInteger int
  | TFloat bool string
  | TBoolean bool
  | TDatetime string
  | TArray "toml list"
  | TTable "(string \<times> toml) list"

text \<open>
  The values \<open>toml.parse\<close> builds. The program observes of a float only whether it
  converts to true (it does unless it is zero or NaN) and the string it converts to, and of
  a date only that string; these two constructors carry just that. A table holds its
  entries in the order of the file, no key twice.
\<close>

type_synonym git_config = "string \<rightharpoonup> (string \<rightharpoonup> cfg_value)"

record env =
  path_join :: "string list \<Rightarrow> string"
  parse_git_config :: "string \<Rightarrow> error + git_config"
  exec :: "string \<Rightarrow> string \<Rightarrow> error + string"
  chalk_yellow :: "string \<Rightarrow> string"
  chalk_gray :: "string \<Rightarrow> string"
  read_tree :: "string \<Rightarrow> fsnode"
  read_manifest :: "string \<Rightarrow> error + toml"
  read_text :: "string \<Rightarrow> error + string"
  axios_get :: "string \<Rightarrow> error + string option"

section \<open>The commit audit: \<open>cmdCommits\<close>\<close>

text \<open>
  \<open>/github.com:([^\/]+)\/([^.]+)(?:\.git)?/\<close> at one start index. The dot of
  \<open>github.com\<close> is not escaped. The second group is the longest run without a dot; the
  optional \<open>.git\<close> after it always matches, consuming or not.
\<close>

definition origin_here :: "string \<Rightarrow> (string \<times> string) option" where
  "origin_here s =
     (if take 6 s = ''github'' \<and> 6 < length s \<and> is_dot (s ! 6) \<and> take 4 (drop 7 s) = ''com:''
      then (case run_until CHR ''/'' (drop 11 s) of
              None \<Rightarrow> None
            | Some (owner, r) \<Rightarrow>
                (let repo = takeWhile (\<lambda>c. c \<noteq> CHR ''.'') r
                 in if repo = [] then None else Some (owner, repo)))
      else None)"

definition origin_match :: "string \<Rightarrow> (string \<times> string) option" where
  "origin_match url = regex_search origin_here url"

text \<open>
  Lines 77 to 84: the \<open>url\<close> of \<open>remote "origin"\<close> is logged, then matched. A missing
  section, a \<open>url\<close> that is no string and a \<open>url\<close> that does not match each end in a
  \<open>TypeError\<close>.
\<close>

definition read_git_url :: "env \<Rightarrow> string \<Rightarrow> string run" where
  \<open>read_git_url E path =
     and_then (lift (parse_git_config E (path_join E [path, ''.git'', ''config''])))
       (\<lambda>gitConfig.
          case gitConfig ''remote "origin"'' of
            None \<Rightarrow> throw TypeError
          | Some remote \<Rightarrow>
              and_then (console_log (LogCfg (remote ''url'')))
                (\<lambda>_. case remote ''url'' of
                        Some (CfgString url) \<Rightarrow>
                          (case origin_match url of
                             None \<Rightarrow> throw TypeError
                           | Some (owner, repo) \<Rightarrow>
                               ret (''https://github.com/'' @ owner @ ''/'' @ repo))
                      | _ \<Rightarrow> throw TypeError))\<close>

text \<open>Lines 99 to 101: the first word of a log line is the hash, the rest the subject.\<close>

definition parse_commit :: "string \<Rightarrow> commit" where
  "parse_commit line =
     (let parts = split CHR '' '' line
      in \<lparr>sha = hd parts, subject = join_with '' '' (tl parts)\<rparr>)"

text \<open>
  Lines 97 to 106: the loop over the log lines, newest first, stopped by \<open>break\<close> at the
  line whose hash is \<open>lastUpstreamCommit\<close>; \<open>extraCommits\<close> is the array pushed to.
\<close>

fun collect_extra :: "string \<Rightarrow> string list \<Rightarrow> commit list \<Rightarrow> commit list" where
  "collect_extra lastUpstreamCommit [] extraCommits = extraCommits"
| "collect_extra lastUpstreamCommit (line # rest) extraCommits =
     (let c = parse_commit line
      in if sha c = lastUpstreamCommit then extraCommits
         else collect_extra lastUpstreamCommit rest (extraCommits @ [c]))"

text \<open>
  Lines 108 to 118: one \<open>git branch --contains\<close> per extra commit; a commit is needed when
  the trimmed output is empty. A failing command ends the loop with its error.
\<close>

fun collect_need ::
  "env \<Rightarrow> string \<Rightarrow> string \<Rightarrow> commit list \<Rightarrow> commit list \<Rightarrow> error + commit list"
where
  "collect_need E path currentBranch [] needCommits = Inr needCommits"
| "collect_need E path currentBranch (extraCommit # rest) needCommits =
     (case exec E (''git branch '' @ currentBranch @ '' --contains '' @ sha extraCommit) path of
        Inl e \<Rightarrow> Inl e
      | Inr out \<Rightarrow>
          (let hasCommit = (0 < length (trim out))
           in collect_need E path currentBranch rest
                (if \<not> hasCommit then needCommits @ [extraCommit] else needCommits)))"

text \<open>\<open>if (needCommits)\<close>: an array is an object, and every object converts to true.\<close>

definition array_truthy :: "'a list \<Rightarrow> bool" where
  "array_truthy xs \<longleftrightarrow> True"

definition need_line :: "env \<Rightarrow> string \<Rightarrow> commit \<Rightarrow> string" where
  "need_line E gitUrl c =
     chalk_yellow E (sha c) @ '' '' @ chalk_gray E (gitUrl @ ''/commit/'' @ sha c)
       @ '' '' @ subject c @ '' ''"

text \<open>Lines 119 to 130.\<close>

definition print_need :: "env \<Rightarrow> string \<Rightarrow> string \<Rightarrow> commit list \<Rightarrow> unit run" where
  "print_need E currentBranch gitUrl needCommits =
     (if array_truthy needCommits
      then console_log (LogStr (''Need the following commits on branch '' @ currentBranch
             @ '':\<newline>'' @ join_with ''\<newline>'' (map (need_line E gitUrl) needCommits)))
      else ret ())"

definition cmdCommits_try :: "env \<Rightarrow> string \<Rightarrow> string \<Rightarrow> string \<Rightarrow> unit run" where
  "cmdCommits_try E path branch branchUpstream =
     and_then (read_git_url E path) (\<lambda>gitUrl.
     and_then (lift (exec E ''git branch --show-current'' path)) (\<lambda>out1.
     let currentBranch = trim out1 in
     and_then (lift (exec E (''git log -1 --pretty=format:'' @ [CHR 0x27] @ ''%h'' @ [CHR 0x27]
                 @ '' remotes/upstream/'' @ branchUpstream) path)) (\<lambda>out2.
     let lastUpstreamCommit = trim out2 in
     and_then (lift (exec E (''git log --pretty=format:'' @ [CHR 0x27] @ ''%h %s'' @ [CHR 0x27]
                 @ '' remotes/origin/'' @ branch) path)) (\<lambda>out3.
     let extraCommits = collect_extra lastUpstreamCommit (split CHR 0x0A (trim out3)) [] in
     and_then (lift (collect_need E path currentBranch extraCommits [])) (\<lambda>needCommits.
     print_need E currentBranch gitUrl needCommits)))))"

text \<open>Lines 131 to 134: the error is logged and thrown again inside a new one.\<close>

definition cmdCommits :: "env \<Rightarrow> string \<Rightarrow> string \<Rightarrow> string \<Rightarrow> unit run" where
  "cmdCommits E path branch branchUpstream =
     try_catch (cmdCommits_try E path branch branchUpstream)
       (\<lambda>err. and_then (console_log (LogErr err)) (\<lambda>_. throw (CommitsFailed path err)))"

section \<open>The directory walk: \<open>deepReadDir\<close>\<close>

datatype dirent = Dirent string bool bool

text \<open>
  A \<open>Dirent\<close> as the program reads it: \<open>name\<close>, \<open>isDirectory()\<close>, \<open>isFile()\<close>.
\<close>

fun dirent_name :: "dirent \<Rightarrow> string" where
  "dirent_name (Dirent n d f) = n"

fun isDirectory :: "dirent \<Rightarrow> bool" where
  "isDirectory (Dirent n d f) = d"

fun isFile :: "dirent \<Rightarrow> bool" where
  "isFile (Dirent n d f) = f"

fun dirent_of :: "string \<Rightarrow> fsnode \<Rightarrow> dirent" where
  "dirent_of n File = Dirent n False True"
| "dirent_of n Other = Dirent n False False"
| "dirent_of n (Directory es) = Dirent n True False"
| "dirent_of n (Unreadable msg) = Dirent n True False"

text \<open>\<open>.filter((it) => it)\<close> on the flattened array: \<open>null\<close> and the empty string go.\<close>

fun truthy_paths :: "string option list \<Rightarrow> string list" where
  "truthy_paths [] = []"
| "truthy_paths (None # xs) = truthy_paths xs"
| "truthy_paths (Some p # xs) = (if p = [] then truthy_paths xs else p # truthy_paths xs)"

text \<open>
  \<open>deepReadDir\<close> on the tree found at \<open>dirPath\<close>, and the \<open>Promise.all\<close> over its
  entries, already flattened: an entry gives \<open>null\<close>, its path, or the array of the
  recursive call. The walk fails when a directory it reads cannot be read. The callbacks
  run concurrently, so which failure \<open>Promise.all\<close> reports is not determined by the
  program; the model reports the first in listing order.
\<close>

fun deepReadDir ::
  "(string list \<Rightarrow> string) \<Rightarrow> string \<Rightarrow> (string \<Rightarrow> dirent \<Rightarrow> bool) \<Rightarrow> (string \<Rightarrow> dirent \<Rightarrow> bool)
     \<Rightarrow> fsnode \<Rightarrow> error + string list"
and deepReadDir_all ::
  "(string list \<Rightarrow> string) \<Rightarrow> string \<Rightarrow> (string \<Rightarrow> dirent \<Rightarrow> bool) \<Rightarrow> (string \<Rightarrow> dirent \<Rightarrow> bool)
     \<Rightarrow> (string \<times> fsnode) list \<Rightarrow> error + string option list"
where
  "deepReadDir J dirPath ignoreFn matcherFn (Directory es) =
     (case deepReadDir_all J dirPath ignoreFn matcherFn es of
        Inl e \<Rightarrow> Inl e
      | Inr items \<Rightarrow> Inr (truthy_paths items))"
| "deepReadDir J dirPath ignoreFn matcherFn (Unreadable msg) = Inl (Failure msg)"
| "deepReadDir J dirPath ignoreFn matcherFn File = Inl (Failure ''ENOTDIR'')"
| "deepReadDir J dirPath ignoreFn matcherFn Other = Inl (Failure ''ENOTDIR'')"
| "deepReadDir_all J dirPath ignoreFn matcherFn [] = Inr []"
| "deepReadDir_all J dirPath ignoreFn matcherFn ((n, t) # es) =
     (case (if ignoreFn dirPath (dirent_of n t) then Inr [None]
            else if isDirectory (dirent_of n t)
              then (case deepReadDir J (J [dirPath, n]) ignoreFn matcherFn t of
                      Inl e \<Rightarrow> Inl e
                    | Inr paths \<Rightarrow> Inr (map Some paths))
            else if \<not> matcherFn dirPath (dirent_of n t) then Inr [None]
            else Inr [Some (J [dirPath, n])]) of
        Inl e \<Rightarrow> Inl e
      | Inr item \<Rightarrow>
          (case deepReadDir_all J dirPath ignoreFn matcherFn es of
             Inl e \<Rightarrow> Inl e
           | Inr items \<Rightarrow> Inr (item @ items)))"

text \<open>
  Two trees that differ only below ignored directories: the same names and kinds
  everywhere else, anything at all under an entry that \<open>ignoreFn\<close> rejects.
\<close>

fun same_outside_ignored ::
  "(string list \<Rightarrow> string) \<Rightarrow> string \<Rightarrow> (string \<Rightarrow> dirent \<Rightarrow> bool) \<Rightarrow> fsnode \<Rightarrow> fsnode \<Rightarrow> bool"
and same_outside_ignored_all ::
  "(string list \<Rightarrow> string) \<Rightarrow> string \<Rightarrow> (string \<Rightarrow> dirent \<Rightarrow> bool)
     \<Rightarrow> (string \<times> fsnode) list \<Rightarrow> (string \<times> fsnode) list \<Rightarrow> bool"
where
  "same_outside_ignored J dirPath ignoreFn (Directory es) (Directory es') =
     same_outside_ignored_all J dirPath ignoreFn es es'"
| "same_outside_ignored J dirPath ignoreFn (Unreadable msg) (Unreadable msg') = (msg = msg')"
| "same_outside_ignored J dirPath ignoreFn File File = True"
| "same_outside_ignored J dirPath ignoreFn Other Other = True"
| "same_outside_ignored J dirPath ignoreFn t t' = False"
| "same_outside_ignored_all J dirPath ignoreFn [] [] = True"
| "same_outside_ignored_all J dirPath ignoreFn ((n, t) # es) ((n', t') # es') =
     (n = n' \<and> dirent_of n t = dirent_of n' t'
      \<and> (ignoreFn dirPath (dirent_of n t) \<or> same_outside_ignored J (J [dirPath, n]) ignoreFn t t')
      \<and> same_outside_ignored_all J dirPath ignoreFn es es')"
| "same_outside_ignored_all J dirPath ignoreFn es es' = False"

text \<open>
  The walk from \<open>dirPath\<close> comes to something \<open>readdir\<close> fails on: a directory that
  cannot be read, at the root or below entries that are directories and are not ignored,
  or a root that is no directory.
\<close>

fun unreadable_reached ::
  "(string list \<Rightarrow> string) \<Rightarrow> string \<Rightarrow> (string \<Rightarrow> dirent \<Rightarrow> bool) \<Rightarrow> fsnode \<Rightarrow> bool"
and unreadable_reached_all ::
  "(string list \<Rightarrow> string) \<Rightarrow> string \<Rightarrow> (string \<Rightarrow> dirent \<Rightarrow> bool)
     \<Rightarrow> (string \<times> fsnode) list \<Rightarrow> bool"
where
  "unreadable_reached J dirPath ignoreFn (Directory es) =
     unreadable_reached_all J dirPath ignoreFn es"
| "unreadable_reached J dirPath ignoreFn (Unreadable msg) = True"
| "unreadable_reached J dirPath ignoreFn File = True"
| "unreadable_reached J dirPath ignoreFn Other = True"
| "unreadable_reached_all J dirPath ignoreFn [] = False"
| "unreadable_reached_all J dirPath ignoreFn ((n, t) # es) =
     ((\<not> ignoreFn dirPath (dirent_of n t) \<and> isDirectory (dirent_of n t)
         \<and> unreadable_reached J (J [dirPath, n]) ignoreFn t)
      \<or> unreadable_reached_all J dirPath ignoreFn es)"

section \<open>Objects used as dictionaries\<close>

fun show_nat :: "nat \<Rightarrow> string" where
  "show_nat n =
     (if n < 10 then [''0123456789'' ! n]
      else show_nat (n div 10) @ [''0123456789'' ! (n mod 10)])"

declare show_nat.simps [simp del]

definition show_int :: "int \<Rightarrow> string" where
  "show_int i = (if i < 0 then ''-'' @ show_nat (nat (- i)) else show_nat (nat i))"

definition is_digit :: "char \<Rightarrow> bool" where
  "is_digit c \<longleftrightarrow> 48 \<le> (of_char c :: nat) \<and> (of_char c :: nat) \<le> 57"

definition read_nat :: "string \<Rightarrow> nat" where
  "read_nat s = foldl (\<lambda>n c. 10 * n + ((of_char c :: nat) - 48)) 0 s"

text \<open>
  A property name is an array index when it is the canonical decimal form of a number
  below \<open>2^32 - 1\<close>.
\<close>

definition array_index :: "string \<Rightarrow> nat option" where
  "array_index k =
     (if k \<noteq> [] \<and> list_all is_digit k \<and> (k = ''0'' \<or> hd k \<noteq> CHR ''0'') \<and> length k \<le> 10
         \<and> read_nat k < 4294967295
      then Some (read_nat k) else None)"

text \<open>
  \<open>Object.keys\<close> of an ordinary object whose own string keys were created in the order
  \<open>ks\<close>: the array indices first, ascending, then the other keys as created.
\<close>

definition own_keys :: "string list \<Rightarrow> string list" where
  "own_keys ks =
     sort_key read_nat (filter (\<lambda>k. array_index k \<noteq> None) ks)
       @ filter (\<lambda>k. array_index k = None) ks"

text \<open>
  The properties every object inherits from \<open>Object.prototype\<close>: reading one of them gives
  a function or an object, which converts to true and has no \<open>push\<close>.
\<close>

definition object_prototype_keys :: "string list" where
  "object_prototype_keys =
     [''constructor'', ''__defineGetter__'', ''__defineSetter__'', ''hasOwnProperty'',
      ''__lookupGetter__'', ''__lookupSetter__'', ''isPrototypeOf'', ''propertyIsEnumerable'',
      ''toString'', ''valueOf'', ''__proto__'', ''toLocaleString'']"

type_synonym index = "(string \<times> string list) list"

text \<open>
  \<open>if (!obj[key]) { obj[key] = []; } obj[key].push(v);\<close> on an object created as \<open>{}\<close>
  whose own values are arrays, kept here in the order the keys were created.
\<close>

definition push_under :: "string \<Rightarrow> string \<Rightarrow> index \<Rightarrow> error + index" where
  "push_under key v obj =
     (case map_of obj key of
        Some names \<Rightarrow> Inr (map (\<lambda>(k, ns). if k = key then (k, ns @ [v]) else (k, ns)) obj)
      | None \<Rightarrow>
          if key \<in> set object_prototype_keys then Inl TypeError else Inr (obj @ [(key, [v])]))"

definition own_entries :: "index \<Rightarrow> index" where
  "own_entries obj =
     concat (map (\<lambda>k. case map_of obj k of Some ns \<Rightarrow> [(k, ns)] | None \<Rightarrow> [])
               (own_keys (map fst obj)))"

text \<open>
  Lines 192 to 196 and 224 to 228: the whole object as \<open>JSON.stringify\<close> walks it, or its
  keys.
\<close>

definition print_index :: "bool \<Rightarrow> index \<Rightarrow> unit run" where
  "print_index verbose obj =
     (if verbose then console_log (LogJson (own_entries obj))
      else console_log (LogKeys (own_keys (map fst obj))))"

text \<open>The name \<open>d\<close> is in the sequence the object holds under \<open>key\<close>.\<close>

definition indexed_under :: "index \<Rightarrow> string \<Rightarrow> string \<Rightarrow> bool" where
  "indexed_under obj key d = (case map_of obj key of Some ns \<Rightarrow> d \<in> set ns | None \<Rightarrow> False)"

section \<open>The manifest scan\<close>

fun js_truthy :: "toml \<Rightarrow> bool" where
  "js_truthy (TString s) = (s \<noteq> [])"
| "js_truthy (TInteger i) = (i \<noteq> 0)"
| "js_truthy (TFloat t r) = t"
| "js_truthy (TBoolean b) = b"
| "js_truthy (TDatetime r) = True"
| "js_truthy (TArray xs) = True"
| "js_truthy (TTable kvs) = True"

text \<open>The string a template literal puts in for a value.\<close>

fun to_string :: "toml \<Rightarrow> string" where
  "to_string (TString s) = s"
| "to_string (TInteger i) = show_int i"
| "to_string (TFloat t r) = r"
| "to_string (TBoolean b) = (if b then ''true'' else ''false'')"
| "to_string (TDatetime r) = r"
| "to_string (TArray xs) = join_with '','' (map to_string xs)"
| "to_string (TTable kvs) = ''[object Object]''"

fun object_keys :: "toml \<Rightarrow> string list" where
  "object_keys (TTable kvs) = own_keys (map fst kvs)"
| "object_keys (TArray xs) = map show_nat [0..<length xs]"
| "object_keys (TString s) = map show_nat [0..<length s]"
| "object_keys v = []"

text \<open>
  \<open>v[k]\<close>, with \<open>None\<close> for \<open>undefined\<close>. This is the read of an own property; the names
  the program reads (\<open>dependencies\<close>, \<open>workspace\<close>, \<open>git\<close>, \<open>branch\<close> and the keys
  \<open>Object.keys\<close> gave) are inherited from no prototype.
\<close>

fun get :: "toml \<Rightarrow> string \<Rightarrow> toml option" where
  "get (TTable kvs) k = map_of kvs k"
| "get (TArray xs) k =
     (case array_index k of
        Some i \<Rightarrow> if i < length xs then Some (xs ! i) else None
      | None \<Rightarrow> None)"
| "get (TString s) k =
     (case array_index k of
        Some i \<Rightarrow> if i < length s then Some (TString [s ! i]) else None
      | None \<Rightarrow> None)"
| "get v k = None"

definition truthy :: "toml option \<Rightarrow> bool" where
  "truthy v = (case v of None \<Rightarrow> False | Some x \<Rightarrow> js_truthy x)"

text \<open>Lines 166 to 168, with \<open>||\<close> and \<open>&&\<close> giving back one of their operands.\<close>

definition config_deps :: "toml \<Rightarrow> toml option" where
  "config_deps configToml =
     (if truthy (get configToml ''dependencies'') then get configToml ''dependencies''
      else if truthy (get configToml ''workspace'')
        then (case get configToml ''workspace'' of
                Some w \<Rightarrow> get w ''dependencies''
              | None \<Rightarrow> None)
      else get configToml ''workspace'')"

text \<open>Lines 174 to 184, for one key \<open>dep\<close> of \<open>configDeps\<close>.\<close>

definition add_dep :: "toml \<Rightarrow> string \<Rightarrow> index \<Rightarrow> error + index" where
  "add_dep configDeps dep dependencies =
     (case get configDeps dep of
        None \<Rightarrow> Inl TypeError
      | Some decl \<Rightarrow>
          if truthy (get decl ''git'')
          then (case get decl ''git'' of
                  None \<Rightarrow> Inr dependencies
                | Some git \<Rightarrow>
                    (let branch = (if truthy (get decl ''branch'')
                                   then (case get decl ''branch'' of
                                           Some b \<Rightarrow> to_string b
                                         | None \<Rightarrow> ''master'')
                                   else ''master'');
                         key = to_string git @ ''#'' @ branch
                     in push_under key dep dependencies))
          else Inr dependencies)"

fun add_deps :: "toml \<Rightarrow> string list \<Rightarrow> index \<Rightarrow> error + index" where
  "add_deps configDeps [] dependencies = Inr dependencies"
| "add_deps configDeps (dep # rest) dependencies =
     (case add_dep configDeps dep dependencies of
        Inl e \<Rightarrow> Inl e
      | Inr dependencies' \<Rightarrow> add_deps configDeps rest dependencies')"

text \<open>Lines 165 to 185: the body of the \<open>try\<close> for one manifest file.\<close>

definition scan_manifest :: "env \<Rightarrow> string \<Rightarrow> index \<Rightarrow> error + index" where
  "scan_manifest E file dependencies =
     (case read_manifest E file of
        Inl e \<Rightarrow> Inl e
      | Inr configToml \<Rightarrow>
          if \<not> truthy (config_deps configToml) then Inr dependencies
          else (case config_deps configToml of
                  None \<Rightarrow> Inr dependencies
                | Some configDeps \<Rightarrow> add_deps configDeps (object_keys configDeps) dependencies))"

text \<open>Lines 163 to 189.\<close>

fun scan_manifests :: "env \<Rightarrow> string list \<Rightarrow> index \<Rightarrow> error + index" where
  "scan_manifests E [] dependencies = Inr dependencies"
| "scan_manifests E (file # files) dependencies =
     (case scan_manifest E file dependencies of
        Inl err \<Rightarrow> Inl (DecodeFailed file err)
      | Inr dependencies' \<Rightarrow> scan_manifests E files dependencies')"

text \<open>Lines 150 to 160: the two callbacks \<open>cmdDependencies\<close> gives to the walk.\<close>

definition manifest_ignore :: "string \<Rightarrow> string \<Rightarrow> dirent \<Rightarrow> bool" where
  "manifest_ignore rootPath path dirent =
     (if isDirectory dirent
      then (path = rootPath \<and> dirent_name dirent \<in> set [''target'', ''.git'', ''.github''])
           \<or> dirent_name dirent \<in> set [''node_modules'']
      else False)"

definition manifest_match :: "string \<Rightarrow> dirent \<Rightarrow> bool" where
  "manifest_match p dirent \<longleftrightarrow> isFile dirent \<and> dirent_name dirent = ''Cargo.toml''"

section \<open>The lockfile scan\<close>

record cargoLockPackage =
  name :: "string option"
  source :: "string option"

text \<open>
  \<open>/name = "([^"]+)"/\<close> and \<open>/source = "([^"]+)"/\<close> at one start index, \<open>field\<close> being
  \<open>name\<close> or \<open>source\<close>.
\<close>

definition quoted_here :: "string \<Rightarrow> string \<Rightarrow> string option" where
  \<open>quoted_here field s =
     (if startsWith s (field @ '' = "'')
      then map_option fst (run_until (CHR 0x22) (drop (length field + 4) s))
      else None)\<close>

text \<open>The property name a buffer's \<open>source\<close> turns into: \<open>null\<close> becomes \<open>"null"\<close>.\<close>

definition source_key :: "string option \<Rightarrow> string" where
  "source_key src = (case src of None \<Rightarrow> ''null'' | Some v \<Rightarrow> v)"

text \<open>
  Lines 206 to 220 for one line of the file. A \<open>match\<close> that finds nothing gives \<open>null\<close>,
  and reading \<open>[1]\<close> of it is a \<open>TypeError\<close>.
\<close>

definition scan_line ::
  "string \<Rightarrow> cargoLockPackage \<times> index \<Rightarrow> error + cargoLockPackage \<times> index"
where
  \<open>scan_line cargoLine st =
     (let line = trim cargoLine; cargoLockPackage = fst st; cargoLockPackages = snd st in
      case (case name cargoLockPackage of
              Some n \<Rightarrow>
                if line = ''[[package]]''
                then push_under (source_key (source cargoLockPackage)) n cargoLockPackages
                else Inr cargoLockPackages
            | None \<Rightarrow> Inr cargoLockPackages) of
        Inl e \<Rightarrow> Inl e
      | Inr cargoLockPackages1 \<Rightarrow>
          (case (if startsWith line ''name = "''
                 then (case regex_search (quoted_here ''name'') line of
                         None \<Rightarrow> Inl TypeError
                       | Some g \<Rightarrow> Inr (cargoLockPackage\<lparr>name := Some g\<rparr>))
                 else Inr cargoLockPackage) of
             Inl e \<Rightarrow> Inl e
           | Inr cargoLockPackage1 \<Rightarrow>
               (case (if startsWith line ''source = "''
                      then (case regex_search (quoted_here ''source'') line of
                              None \<Rightarrow> Inl TypeError
                            | Some g \<Rightarrow> Inr (cargoLockPackage1\<lparr>source := Some g\<rparr>))
                      else Inr cargoLockPackage1) of
                  Inl e \<Rightarrow> Inl e
                | Inr cargoLockPackage2 \<Rightarrow> Inr (cargoLockPackage2, cargoLockPackages1))))\<close>

fun scan_lines ::
  "string list \<Rightarrow> cargoLockPackage \<times> index \<Rightarrow> error + cargoLockPackage \<times> index"
where
  "scan_lines [] st = Inr st"
| "scan_lines (cargoLine # rest) st =
     (case scan_line cargoLine st of Inl e \<Rightarrow> Inl e | Inr st' \<Rightarrow> scan_lines rest st')"

text \<open>
  Lines 203 to 221: the index \<open>cargoLockPackages\<close> the loop leaves behind for the text of
  a lockfile.
\<close>

definition scan_lock :: "string \<Rightarrow> error + index" where
  "scan_lock cargoLock =
     map_sum id snd
       (scan_lines (split CHR 0x0A cargoLock) (\<lparr>name = None, source = None\<rparr>, []))"

section \<open>The upstream check\<close>

definition is_word :: "char \<Rightarrow> bool" where
  "is_word c \<longleftrightarrow>
     (let n = (of_char c :: nat)
      in (48 \<le> n \<and> n \<le> 57) \<or> (65 \<le> n \<and> n \<le> 90) \<or> (97 \<le> n \<and> n \<le> 122) \<or> n = 95)"

text \<open>\<open>\?branch=([^#]+)#(\w+)\<close> at the head of \<open>t\<close>.\<close>

definition branch_here :: "string \<Rightarrow> (string \<times> string) option" where
  "branch_here t =
     (if take 8 t = ''?branch=''
      then (case run_until CHR ''#'' (drop 8 t) of
              None \<Rightarrow> None
            | Some (b, r) \<Rightarrow>
                (let w = takeWhile is_word r in if w = [] then None else Some (b, w)))
      else None)"

text \<open>
  \<open>(?:.git)?\?branch=([^#]+)#(\w+)\<close> at the head of \<open>t\<close>: the optional group is tried
  first with its four characters, then without.
\<close>

definition after_repo :: "string \<Rightarrow> (string \<times> string) option" where
  "after_repo t =
     (case (if 4 \<le> length t \<and> is_dot (hd t) \<and> take 3 (tl t) = ''git''
            then branch_here (drop 4 t) else None) of
        Some r \<Rightarrow> Some r
      | None \<Rightarrow> branch_here t)"

text \<open>
  The second group \<open>([^/]+)\<close> is greedy and gives characters back one at a time: the
  lengths \<open>k\<close> are tried from the longest down.
\<close>

fun repo_lengths :: "string \<Rightarrow> nat list \<Rightarrow> (string \<times> string \<times> string) option" where
  "repo_lengths r [] = None"
| "repo_lengths r (k # ks) =
     (case after_repo (drop k r) of
        Some (b, w) \<Rightarrow> Some (take k r, b, w)
      | None \<Rightarrow> repo_lengths r ks)"

text \<open>
  \<open>/git\+https:\/\/github.com\/([^/]+)\/([^/]+)(?:.git)?\?branch=([^#]+)#(\w+)/\<close> at one
  start index; the result is groups 1 to 4.
\<close>

definition source_here :: "string \<Rightarrow> (string \<times> string \<times> string \<times> string) option" where
  "source_here s =
     (if take 18 s = ''git+https://github'' \<and> 18 < length s \<and> is_dot (s ! 18)
         \<and> take 4 (drop 19 s) = ''com/''
      then (case run_until CHR ''/'' (drop 23 s) of
              None \<Rightarrow> None
            | Some (owner, r) \<Rightarrow>
                (let n = length (takeWhile (\<lambda>c. c \<noteq> CHR ''/'') r)
                 in map_option (Pair owner) (repo_lengths r (rev [1..<Suc n]))))
      else None)"

definition source_match :: "string \<Rightarrow> (string \<times> string \<times> string \<times> string) option" where
  "source_match src = regex_search source_here src"

text \<open>\<open>s.replace(pat, rep)\<close> with a string pattern: the first occurrence only.\<close>

fun replace_first :: "string \<Rightarrow> string \<Rightarrow> string \<Rightarrow> string" where
  "replace_first pat rep [] = (if pat = [] then rep else [])"
| "replace_first pat rep (c # cs) =
     (if take (length pat) (c # cs) = pat then rep @ drop (length pat) (c # cs)
      else c # replace_first pat rep cs)"

definition api_url :: "string \<Rightarrow> string \<Rightarrow> string \<Rightarrow> string" where
  "api_url owner repo branch =
     ''https://api.github.com/repos/'' @ owner @ ''/'' @ replace_first ''.git'' [] repo
       @ ''/commits/'' @ branch"

definition shown :: "string option \<Rightarrow> string" where
  "shown v = (case v of None \<Rightarrow> ''undefined'' | Some x \<Rightarrow> x)"

text \<open>Lines 232 to 245 for one key \<open>src\<close> of the index.\<close>

definition verify_source :: "env \<Rightarrow> string \<Rightarrow> unit run" where
  "verify_source E src =
     (case source_match src of
        None \<Rightarrow> ret ()
      | Some (owner, repo, branch, pinned) \<Rightarrow>
          and_then (lift (axios_get E (api_url owner repo branch)))
            (\<lambda>latest.
               if latest \<noteq> Some pinned
               then console_log (LogStr (''SHA error! The latest commit hash is '' @ shown latest
                      @ '' for repo '' @ owner @ ''/'' @ repo @ '', branch '' @ [CHR 0x27] @ branch
                      @ [CHR 0x27] @ '', got '' @ pinned @ '': '' @ [CHR 0x0A, CHR 0x09] @ src))
               else ret ()))"

fun verify_sources :: "env \<Rightarrow> string list \<Rightarrow> unit run" where
  "verify_sources E [] = ret ()"
| "verify_sources E (src # rest) = and_then (verify_source E src) (\<lambda>_. verify_sources E rest)"

section \<open>The two commands and their handlers\<close>

text \<open>Lines 199 to 247.\<close>

definition check_lock :: "env \<Rightarrow> string \<Rightarrow> bool \<Rightarrow> unit run" where
  "check_lock E rootPath verbose =
     and_then (lift (read_text E (path_join E [rootPath, ''Cargo.lock''])))
       (\<lambda>cargoLock.
     and_then (lift (scan_lock cargoLock))
       (\<lambda>cargoLockPackages.
     and_then (console_log (LogStr ''Cargo.lock''))
       (\<lambda>_.
     and_then (print_index verbose cargoLockPackages)
       (\<lambda>_. verify_sources E (own_keys (map fst cargoLockPackages))))))"

definition cmdDependencies :: "env \<Rightarrow> string \<Rightarrow> bool \<Rightarrow> bool \<Rightarrow> unit run" where
  \<open>cmdDependencies E rootPath cargoLock verbose =
     and_then (console_log (LogArgs rootPath cargoLock verbose))
       (\<lambda>_.
     and_then (lift (parse_git_config E (path_join E [rootPath, ''.git'', ''config''])))
       (\<lambda>gitConfig.
     and_then (case gitConfig ''remote "origin"'' of
                 None \<Rightarrow> throw TypeError
               | Some remote \<Rightarrow> console_log (LogCfg (remote ''url'')))
       (\<lambda>_.
     and_then (lift (deepReadDir (path_join E) rootPath (manifest_ignore rootPath)
                       manifest_match (read_tree E rootPath)))
       (\<lambda>files.
     and_then (lift (scan_manifests E files []))
       (\<lambda>dependencies.
     and_then (console_log (LogStr ''Cargo.toml''))
       (\<lambda>_.
     and_then (print_index verbose dependencies)
       (\<lambda>_. if cargoLock then check_lock E rootPath verbose else ret ())))))))\<close>

text \<open>
  Lines 43 to 45 and 64 to 70: each handler ends in \<open>.catch(console.error)\<close>. The result
  is what went to standard output, what went to standard error, and how the promise the
  handler returns is settled.
\<close>

definition catch_console_error :: "unit run \<Rightarrow> logged list \<times> logged list \<times> (error + unit)" where
  "catch_console_error m =
     (case m of
        (out, Inl e) \<Rightarrow> (out, [LogErr e], Inr ())
      | (out, Inr v) \<Rightarrow> (out, [], Inr v))"




section \<open>A sample checkout\<close>

text \<open>
  A checkout at \<open>repo\<close> whose origin is on the hosting site, on branch \<open>main\<close>. The
  remote branch \<open>stable\<close> has the log \<open>c3, c2, c1\<close> and the upstream tip is \<open>c1\<close>; the
  remote branch \<open>merged\<close> has nothing above \<open>c1\<close>. The local branch contains \<open>c2\<close> but
  not \<open>c3\<close>. Every other command fails, and every other directory has no git
  configuration, for which \<open>parseGitConfig.sync\<close> gives an empty object.
\<close>

definition sample_config :: "string \<Rightarrow> error + git_config" where
  \<open>sample_config p =
     (if p = ''repo/.git/config''
      then Inr [''remote "origin"'' \<mapsto> [''url'' \<mapsto> CfgString ''git@github.com:nbaztec/subsgrade.git'']]
      else Inr Map.empty)\<close>

definition sample_exec :: "string \<Rightarrow> string \<Rightarrow> error + string" where
  "sample_exec cmd cwd =
     (case map_of
        [(''git branch --show-current'', ''main\<newline>''),
         (''git log -1 --pretty=format:'' @ [CHR 0x27] @ ''%h'' @ [CHR 0x27]
            @ '' remotes/upstream/stable'', ''c1''),
         (''git log --pretty=format:'' @ [CHR 0x27] @ ''%h %s'' @ [CHR 0x27]
            @ '' remotes/origin/stable'', ''c3 third\<newline>c2 second\<newline>c1 first''),
         (''git log --pretty=format:'' @ [CHR 0x27] @ ''%h %s'' @ [CHR 0x27]
            @ '' remotes/origin/merged'', ''c1 first''),
         (''git branch main --contains c3'', []),
         (''git branch main --contains c2'', ''* main\<newline>'')] cmd of
        Some out \<Rightarrow> if cwd = ''repo'' then Inr out else Inl (Failure ''not a git repository'')
      | None \<Rightarrow> Inl (Failure ''command failed''))"

text \<open>
  The tree of the checkout: manifests at the root and in the two crates \<open>a\<close> and \<open>b\<close>, a
  build directory and a package cache that hold manifests of their own.
\<close>

definition sample_tree :: fsnode where
  "sample_tree =
     Directory
       [(''Cargo.toml'', File),
        (''target'', Directory [(''Cargo.toml'', File)]),
        (''.git'', Directory [(''config'', File)]),
        (''a'', Directory [(''Cargo.toml'', File),
                          (''node_modules'', Directory [(''Cargo.toml'', File)])]),
        (''b'', Directory [(''Cargo.toml'', File)])]"

text \<open>
  The root manifest declares a registry dependency, a path dependency and a git dependency
  without a branch; the two crates declare one git dependency each, on the same
  repository and branch.
\<close>

definition sample_manifest :: "string \<Rightarrow> error + toml" where
  "sample_manifest p =
     (if p = ''repo/Cargo.toml'' then
        Inr (TTable [(''dependencies'', TTable
          [(''serde'', TString ''1.0''),
           (''local'', TTable [(''path'', TString ''../local'')]),
           (''baz'', TTable [(''git'', TString ''https://example.com/baz'')])])])
      else if p = ''repo/a/Cargo.toml'' then
        Inr (TTable [(''dependencies'', TTable
          [(''foo'', TTable [(''git'', TString ''https://example.com/foo''),
                            (''branch'', TString ''dev'')])])])
      else if p = ''repo/b/Cargo.toml'' then
        Inr (TTable [(''dependencies'', TTable
          [(''bar'', TTable [(''git'', TString ''https://example.com/foo''),
                            (''branch'', TString ''dev'')])])])
      else Inl (Failure ''ENOENT''))"

text \<open>
  A lockfile of three packages, the second of which has no \<open>source\<close> line, and one of two
  packages that both have one.
\<close>

definition sample_lock :: string where
  \<open>sample_lock =
     ''[[package]]\<newline>name = "alpha"\<newline>source = "git+https://github.com/o/r?branch=main#abc123"\<newline>''
     @ ''\<newline>[[package]]\<newline>name = "beta"\<newline>''
     @ ''\<newline>[[package]]\<newline>name = "gamma"\<newline>source = "registry+https://github.com/rust-lang/crates.io-index"\<newline>''\<close>

definition short_lock :: string where
  \<open>short_lock =
     ''[[package]]\<newline>name = "alpha"\<newline>source = "registry+crates"\<newline>''
     @ ''\<newline>[[package]]\<newline>name = "gamma"\<newline>source = "registry+crates"\<newline>''\<close>

definition sample_lock_file :: "string \<Rightarrow> error + string" where
  "sample_lock_file p = (if p = ''repo/Cargo.lock'' then Inr sample_lock else Inl (Failure ''ENOENT''))"

text \<open>The hosting site knows two repositories; their \<open>main\<close> branches are at these commits.\<close>

definition sample_api :: "string \<Rightarrow> error + string option" where
  "sample_api u =
     (if u = ''https://api.github.com/repos/o/r/commits/main'' then Inr (Some ''def456'')
      else if u = ''https://api.github.com/repos/o/s/commits/main'' then Inr (Some ''abc123'')
      else Inl (Failure ''Request failed with status code 404''))"

definition sample_env :: env where
  "sample_env =
     \<lparr>path_join = join_with ''/'',
      parse_git_config = sample_config,
      exec = sample_exec,
      chalk_yellow = (\<lambda>s. s),
      chalk_gray = (\<lambda>s. s),
      read_tree = (\<lambda>p. if p = ''repo'' then sample_tree else Unreadable ''ENOENT''),
      read_manifest = sample_manifest,
      read_text = sample_lock_file,
      axios_get = sample_api\<rparr>"

section \<open>Properties of the commit audit\<close>

lemma collect_extra_acc:
  "collect_extra tip ls acc = acc @ takeWhile (\<lambda>c. sha c \<noteq> tip) (map parse_commit ls)"
  by (induction ls arbitrary: acc) (simp_all add: Let_def)





lemma takeWhile_stop: "\<forall>x \<in> set xs. P x \<Longrightarrow> \<not> P y \<Longrightarrow> takeWhile P (xs @ y # ys) = xs"
  by (induction xs) simp_all

lemma and_then_Inr:
  "and_then m f = (out, Inr v) \<longleftrightarrow> (\<exists>o1 a o2. m = (o1, Inr a) \<and> f a = (o2, Inr v) \<and> out = o1 @ o2)"
  by (auto simp: and_then_def split: prod.splits sum.splits)


lemma lift_Inr: "lift r = (out, Inr v) \<longleftrightarrow> r = Inr v \<and> out = []"
  by (auto simp: lift_def)


lemma read_git_url_Inr:
  assumes "read_git_url E path = (out, Inr gitUrl)"
  shows "\<exists>url. out = [LogCfg url]"
proof -
  from assms obtain gitConfig where
    r: \<open>(case gitConfig ''remote "origin"'' of
            None \<Rightarrow> throw TypeError
          | Some remote \<Rightarrow>
              and_then (console_log (LogCfg (remote ''url'')))
                (\<lambda>_. case remote ''url'' of
                        Some (CfgString url) \<Rightarrow>
                          (case origin_match url of
                             None \<Rightarrow> throw TypeError
                           | Some (owner, repo) \<Rightarrow>
                               ret (''https://github.com/'' @ owner @ ''/'' @ repo))
                      | _ \<Rightarrow> throw TypeError)) = (out, Inr gitUrl)\<close>
    unfolding read_git_url_def and_then_Inr lift_Inr by auto
  show ?thesis
  proof (cases \<open>gitConfig ''remote "origin"''\<close>)
    case None
    with r show ?thesis by (simp add: throw_def)
  next
    case (Some remote)
    with r obtain o2 where "out = [LogCfg (remote ''url'')] @ o2"
      and "(case remote ''url'' of
              Some (CfgString url) \<Rightarrow>
                (case origin_match url of
                   None \<Rightarrow> throw TypeError
                 | Some (owner, repo) \<Rightarrow> ret (''https://github.com/'' @ owner @ ''/'' @ repo))
            | _ \<Rightarrow> throw TypeError) = (o2, Inr gitUrl)"
      by (auto simp: and_then_Inr console_log_def)
    then show ?thesis
      by (auto simp: throw_def ret_def split: option.splits cfg_value.splits)
  qed
qed

lemma cmdCommits_Inr:
  "cmdCommits E path branch branchUpstream = (out, Inr v)
     \<longleftrightarrow> cmdCommits_try E path branch branchUpstream = (out, Inr v)"
  by (auto simp: cmdCommits_def try_catch_def and_then_def console_log_def throw_def
      split: prod.splits sum.splits)

lemma cmdCommits_ok_output:
  assumes "cmdCommits E path branch branchUpstream = (out, Inr ())"
  shows "\<exists>url cur gitUrl need. out
     = [LogCfg url, LogStr (''Need the following commits on branch '' @ cur @ '':\<newline>''
          @ join_with ''\<newline>'' (map (need_line E gitUrl) need))]"
proof -
  from assms obtain o1 gitUrl out1 need o6 where
    g: "read_git_url E path = (o1, Inr gitUrl)"
    and p: "print_need E (trim out1) gitUrl need = (o6, Inr ())"
    and out: "out = o1 @ o6"
    unfolding cmdCommits_Inr cmdCommits_try_def and_then_Inr lift_Inr Let_def by auto
  from read_git_url_Inr[OF g] obtain url where "o1 = [LogCfg url]" by blast
  moreover from p have "o6 = [LogStr (''Need the following commits on branch '' @ trim out1
          @ '':\<newline>'' @ join_with ''\<newline>'' (map (need_line E gitUrl) need))]"
    by (simp add: print_need_def array_truthy_def console_log_def)
  ultimately show ?thesis using out by auto
qed

lemmas sample_commits_defs =
  cmdCommits_def cmdCommits_try_def try_catch_def and_then_def read_git_url_def lift_def
  throw_def ret_def console_log_def print_need_def array_truthy_def need_line_def
  sample_env_def sample_config_def sample_exec_def origin_match_def origin_here_def
  run_until_def is_dot_def trim_def is_space_def split_def parse_commit_def

text \<open>
  The audit of the branch \<open>stable\<close> in the sample checkout, run as a whole: the report
  asks for \<open>c3\<close> alone.
\<close>

lemma sample_audit:
  \<open>cmdCommits sample_env ''repo'' ''stable'' ''stable'' =
     ([LogCfg (Some (CfgString ''git@github.com:nbaztec/subsgrade.git'')),
       LogStr (''Need the following commits on branch main:\<newline>''
         @ ''c3 https://github.com/nbaztec/subsgrade/commit/c3 third '')], Inr ())\<close>
  by (simp add: sample_commits_defs)



text \<open>
  C9. The loop keeps the commits of the log that come before the first line carrying the
  hash of the upstream tip and drops that line and all after it; when no line carries
  that hash, every commit of the log is kept.
\<close>

theorem extra_commits_stop_before_boundary:
  "((\<forall>l \<in> set newer. sha (parse_commit l) \<noteq> lastUpstreamCommit)
      \<and> sha (parse_commit boundary) = lastUpstreamCommit
      \<longrightarrow> collect_extra lastUpstreamCommit (newer @ boundary # older) [] = map parse_commit newer)
   \<and> ((\<forall>l \<in> set log. sha (parse_commit l) \<noteq> lastUpstreamCommit)
      \<longrightarrow> collect_extra lastUpstreamCommit log [] = map parse_commit log)"
proof (intro conjI impI)
  assume a: "(\<forall>l \<in> set newer. sha (parse_commit l) \<noteq> lastUpstreamCommit)
      \<and> sha (parse_commit boundary) = lastUpstreamCommit"
  have "takeWhile (\<lambda>c. sha c \<noteq> lastUpstreamCommit)
          (map parse_commit newer @ parse_commit boundary # map parse_commit older)
        = map parse_commit newer"
    using a by (intro takeWhile_stop) auto
  then show "collect_extra lastUpstreamCommit (newer @ boundary # older) [] = map parse_commit newer"
    by (simp add: collect_extra_acc)
next
  assume "\<forall>l \<in> set log. sha (parse_commit l) \<noteq> lastUpstreamCommit"
  then show "collect_extra lastUpstreamCommit log [] = map parse_commit log"
    by (simp add: collect_extra_acc takeWhile_eq_all_conv)
qed

theorem extra_commits_stop_before_boundary_witness:
  "collect_extra ''c1'' ([''c3 third'', ''c2 second''] @ ''c1 first'' # [''c0 root'']) []
     = [\<lparr>sha = ''c3'', subject = ''third''\<rparr>, \<lparr>sha = ''c2'', subject = ''second''\<rparr>]
   \<and> collect_extra ''c9'' [''c3 third'', ''c2 second''] []
     = [\<lparr>sha = ''c3'', subject = ''third''\<rparr>, \<lparr>sha = ''c2'', subject = ''second''\<rparr>]"
  using extra_commits_stop_before_boundary[of "[''c3 third'', ''c2 second'']" "''c1''"
          "''c1 first''" "[''c0 root'']" "[''c3 third'', ''c2 second'']"]
    extra_commits_stop_before_boundary[of "[]" "''c9''" "''c9''" "[]" "[''c3 third'', ''c2 second'']"]
  by (simp add: parse_commit_def split_def)

text \<open>
  C10. The report is logged whatever the need list holds, the guard being true of every
  array: an empty need list gives the header line and nothing after it, and every audit
  that completes has logged the remote URL and then the report.
\<close>

theorem need_report_unconditional:
  "print_need E currentBranch gitUrl needCommits
     = ([LogStr (''Need the following commits on branch '' @ currentBranch @ '':\<newline>''
          @ join_with ''\<newline>'' (map (need_line E gitUrl) needCommits))], Inr ())
   \<and> print_need E currentBranch gitUrl []
     = ([LogStr (''Need the following commits on branch '' @ currentBranch @ '':\<newline>'')], Inr ())
   \<and> (cmdCommits E path branch branchUpstream = (out, Inr ())
      \<longrightarrow> (\<exists>url cur url' need. out
            = [LogCfg url, LogStr (''Need the following commits on branch '' @ cur @ '':\<newline>''
                 @ join_with ''\<newline>'' (map (need_line E url') need))]))"
  using cmdCommits_ok_output[of E path branch branchUpstream out]
  by (simp add: print_need_def array_truthy_def console_log_def)

theorem need_report_unconditional_witness:
  \<open>cmdCommits sample_env ''repo'' ''merged'' ''stable''
     = ([LogCfg (Some (CfgString ''git@github.com:nbaztec/subsgrade.git'')),
         LogStr ''Need the following commits on branch main:\<newline>''], Inr ())
   \<and> print_need sample_env ''main'' ''https://github.com/nbaztec/subsgrade'' []
     = ([LogStr ''Need the following commits on branch main:\<newline>''], Inr ())\<close>
  using need_report_unconditional[of sample_env "''main''" "''https://github.com/nbaztec/subsgrade''"
          "[]" "''repo''" "''merged''" "''stable''"]
  by (simp add: sample_commits_defs)

section \<open>Properties of the directory walk\<close>

lemma deepReadDir_same:
  "same_outside_ignored J dp ig t t' \<Longrightarrow> deepReadDir J dp ig m t = deepReadDir J dp ig m t'"
  "same_outside_ignored_all J dp ig es es' \<Longrightarrow> deepReadDir_all J dp ig m es = deepReadDir_all J dp ig m es'"
proof (induction J dp ig t t' and J dp ig es es' rule: same_outside_ignored_same_outside_ignored_all.induct)
  case (7 J dirPath ignoreFn n t es n' t' es')
  from "7.prems" have n: "n' = n" and d: "dirent_of n t' = dirent_of n t"
    and rest: "deepReadDir_all J dirPath ignoreFn m es' = deepReadDir_all J dirPath ignoreFn m es"
    using "7.IH"(2) by auto
  from "7.prems" "7.IH"(1) have
    sub: "\<not> ignoreFn dirPath (dirent_of n t) \<Longrightarrow>
          deepReadDir J (J [dirPath, n]) ignoreFn m t' = deepReadDir J (J [dirPath, n]) ignoreFn m t"
    by auto
  show ?case
  proof (cases "ignoreFn dirPath (dirent_of n t)")
    case True
    then show ?thesis by (simp add: n d rest cong: sum.case_cong)
  next
    case False
    then show ?thesis by (simp add: n d rest sub cong: sum.case_cong)
  qed
qed simp_all

lemma deepReadDir_all_append:
  "deepReadDir_all J dp ig m (es1 @ es2) =
     (case deepReadDir_all J dp ig m es1 of
        Inl e \<Rightarrow> Inl e
      | Inr xs \<Rightarrow> (case deepReadDir_all J dp ig m es2 of Inl e \<Rightarrow> Inl e | Inr ys \<Rightarrow> Inr (xs @ ys)))"
proof (induction es1)
  case Nil
  show ?case by (simp split: sum.splits)
next
  case (Cons a es1)
  obtain n t where a: "a = (n, t)" by (cases a)
  show ?case by (simp add: a Cons split: sum.splits)
qed

lemma truthy_paths_append: "truthy_paths (xs @ ys) = truthy_paths xs @ truthy_paths ys"
  by (induction xs rule: truthy_paths.induct) auto


text \<open>
  C6. A directory the ignore callback rejects is never read: the walk gives the same
  result, or the same failure, on two trees that differ only below ignored directories at
  any depth, even where the ignored directory cannot be read or holds files the match
  callback accepts; and it gives what it would give were the ignored entry absent.
\<close>

theorem ignored_directory_never_read:
  "(same_outside_ignored J dirPath ignoreFn t t'
      \<longrightarrow> deepReadDir J dirPath ignoreFn matcherFn t = deepReadDir J dirPath ignoreFn matcherFn t')
   \<and> (ignoreFn dirPath (dirent_of n sub)
      \<longrightarrow> deepReadDir J dirPath ignoreFn matcherFn (Directory (before @ (n, sub) # after))
          = deepReadDir J dirPath ignoreFn matcherFn (Directory (before @ after)))"
  by (auto simp: deepReadDir_same deepReadDir_all_append truthy_paths_append split: sum.splits)

theorem ignored_directory_never_read_witness:
  "deepReadDir (join_with ''/'') ''repo'' (manifest_ignore ''repo'') manifest_match sample_tree
     = Inr [''repo/Cargo.toml'', ''repo/a/Cargo.toml'', ''repo/b/Cargo.toml'']
   \<and> deepReadDir (join_with ''/'') ''repo'' (manifest_ignore ''repo'') manifest_match
       (Directory
          [(''Cargo.toml'', File),
           (''target'', Unreadable ''EACCES''),
           (''.git'', Directory []),
           (''a'', Directory [(''Cargo.toml'', File), (''node_modules'', Unreadable ''EACCES'')]),
           (''b'', Directory [(''Cargo.toml'', File)])])
     = Inr [''repo/Cargo.toml'', ''repo/a/Cargo.toml'', ''repo/b/Cargo.toml'']
   \<and> deepReadDir (join_with ''/'') ''repo'' (manifest_ignore ''repo'') manifest_match
       (Directory ([(''Cargo.toml'', File)] @ (''target'', Directory [(''Cargo.toml'', File)]) # []))
     = Inr [''repo/Cargo.toml'']"
  using ignored_directory_never_read[of "join_with ''/''" "''repo''" "manifest_ignore ''repo''"
          sample_tree
          "Directory
            [(''Cargo.toml'', File),
             (''target'', Unreadable ''EACCES''),
             (''.git'', Directory []),
             (''a'', Directory [(''Cargo.toml'', File), (''node_modules'', Unreadable ''EACCES'')]),
             (''b'', Directory [(''Cargo.toml'', File)])]"
          manifest_match "''target''" "Directory [(''Cargo.toml'', File)]"
          "[(''Cargo.toml'', File)]" "[]"]
  by (simp add: sample_tree_def manifest_ignore_def manifest_match_def)

section \<open>Properties of the manifest scan\<close>

lemma map_of_bump:
  "map_of (map (\<lambda>(k, ns). if k = key then (k, ns @ [v]) else (k, ns)) obj) k' =
     (if k' = key then map_option (\<lambda>ns. ns @ [v]) (map_of obj key) else map_of obj k')"
  by (induction obj) auto

lemma map_of_push_under:
  assumes "push_under key v obj = Inr obj'"
  shows "map_of obj' k =
     (if k = key then Some ((case map_of obj key of Some ns \<Rightarrow> ns | None \<Rightarrow> []) @ [v])
      else map_of obj k)"
proof (cases "map_of obj key")
  case None
  with assms have "obj' = obj @ [(key, [v])]"
    by (simp add: push_under_def split: if_splits)
  with None show ?thesis by (simp add: map_of_append map_add_def split: option.splits)
next
  case (Some ns)
  with assms have "obj' = map (\<lambda>(k, ns). if k = key then (k, ns @ [v]) else (k, ns)) obj"
    by (simp add: push_under_def)
  with Some show ?thesis by (simp add: map_of_bump)
qed

lemma hash_not_inherited: "CHR ''#'' \<in> set key \<Longrightarrow> key \<notin> set object_prototype_keys"
  by (auto simp: object_prototype_keys_def)

lemma push_under_hash:
  "CHR ''#'' \<in> set key \<Longrightarrow> \<exists>obj'. push_under key v obj = Inr obj'"
  using hash_not_inherited[of key] by (simp add: push_under_def split: option.splits)

text \<open>What one step of the inner loop does: nothing, or one push under a key with a hash sign.\<close>

lemma add_dep_cases:
  "add_dep configDeps dep deps = r \<Longrightarrow>
     (get configDeps dep = None \<and> r = Inl TypeError)
   \<or> (\<exists>decl. get configDeps dep = Some decl \<and> \<not> truthy (get decl ''git'') \<and> r = Inr deps)
   \<or> (\<exists>decl git branch. get configDeps dep = Some decl \<and> get decl ''git'' = Some git
        \<and> js_truthy git
        \<and> (branch = ''master'' \<or> (\<exists>b. get decl ''branch'' = Some b \<and> js_truthy b \<and> branch = to_string b))
        \<and> r = push_under (to_string git @ ''#'' @ branch) dep deps)"
  by (auto simp: add_dep_def truthy_def Let_def split: option.splits if_splits)



lemma push_under_indexed:
  "push_under key v obj = Inr obj' \<Longrightarrow>
     indexed_under obj' k d \<longleftrightarrow> indexed_under obj k d \<or> (k = key \<and> d = v)"
  by (auto simp: indexed_under_def map_of_push_under split: option.splits)


lemma add_dep_origin:
  assumes "add_dep configDeps dep deps = Inr deps'" "indexed_under deps' k d"
  shows "indexed_under deps k d
     \<or> (d = dep \<and> (\<exists>decl git. get configDeps dep = Some decl \<and> get decl ''git'' = Some git \<and> js_truthy git))"
proof -
  from add_dep_cases[OF assms(1)] consider "deps' = deps"
    | key decl git where "push_under key dep deps = Inr deps'" "get configDeps dep = Some decl"
        "get decl ''git'' = Some git" "js_truthy git"
    by (metis sum.inject(2) sum.distinct(1))
  then show ?thesis
    using assms(2) by cases (auto simp: push_under_indexed)
qed


lemma add_dep_total:
  assumes "get configDeps dep \<noteq> None"
  shows "\<exists>deps'. add_dep configDeps dep deps = Inr deps'"
proof -
  from add_dep_cases[OF refl, of configDeps dep deps] assms consider
      "add_dep configDeps dep deps = Inr deps"
    | g b where "add_dep configDeps dep deps = push_under (g @ ''#'' @ b) dep deps"
    by metis
  then show ?thesis
    using push_under_hash[of _ dep deps] by cases auto
qed


lemma add_deps_origin:
  "add_deps configDeps keys deps = Inr deps' \<Longrightarrow> indexed_under deps' k d \<Longrightarrow>
     indexed_under deps k d
     \<or> (d \<in> set keys \<and> (\<exists>decl git. get configDeps d = Some decl \<and> get decl ''git'' = Some git \<and> js_truthy git))"
proof (induction keys arbitrary: deps)
  case Nil
  then show ?case by simp
next
  case (Cons dep keys)
  from Cons.prems(1) obtain mid where
    a: "add_dep configDeps dep deps = Inr mid" and b: "add_deps configDeps keys mid = Inr deps'"
    by (auto split: sum.splits)
  from Cons.IH[OF b Cons.prems(2)] add_dep_origin[OF a, of k d] show ?case by auto
qed



lemma scan_manifest_cases:
  assumes "scan_manifest E manifest deps = Inr deps'"
  shows "deps' = deps
     \<or> (\<exists>configToml configDeps. read_manifest E manifest = Inr configToml
          \<and> config_deps configToml = Some configDeps
          \<and> add_deps configDeps (object_keys configDeps) deps = Inr deps')"
  using assms by (auto simp: scan_manifest_def split: sum.splits if_splits option.splits)


lemma scan_manifest_origin:
  "scan_manifest E manifest deps = Inr deps' \<Longrightarrow> indexed_under deps' k d \<Longrightarrow>
     indexed_under deps k d
     \<or> (\<exists>configToml configDeps decl git. read_manifest E manifest = Inr configToml
          \<and> config_deps configToml = Some configDeps \<and> d \<in> set (object_keys configDeps)
          \<and> get configDeps d = Some decl \<and> get decl ''git'' = Some git \<and> js_truthy git)"
  using scan_manifest_cases[of E manifest deps deps'] add_deps_origin[of _ _ deps deps' k d] by blast



lemma scan_manifests_origin:
  "scan_manifests E files deps = Inr deps' \<Longrightarrow> indexed_under deps' k d \<Longrightarrow>
     indexed_under deps k d
     \<or> (\<exists>manifest \<in> set files. \<exists>configToml configDeps decl git. read_manifest E manifest = Inr configToml
          \<and> config_deps configToml = Some configDeps \<and> d \<in> set (object_keys configDeps)
          \<and> get configDeps d = Some decl \<and> get decl ''git'' = Some git \<and> js_truthy git)"
proof (induction files arbitrary: deps)
  case Nil
  then show ?case by simp
next
  case (Cons f files)
  from Cons.prems(1) obtain mid where
    a: "scan_manifest E f deps = Inr mid" and b: "scan_manifests E files mid = Inr deps'"
    by (auto split: sum.splits)
  from Cons.IH[OF b Cons.prems(2)] scan_manifest_origin[OF a, of k d] show ?case by auto
qed



lemmas manifest_defs =
  scan_manifest_def config_deps_def truthy_def add_dep_def own_keys_def array_index_def
  is_digit_def read_nat_def push_under_def object_prototype_keys_def indexed_under_def



text \<open>
  C8. An entry whose declaration has no \<open>git\<close> field leaves the index as it was, and
  after a scan of any set of manifest files every name in every sequence of the index is
  the key of an entry, in one of the files, whose declaration has a \<open>git\<close> field.
\<close>

theorem no_git_field_not_indexed:
  "(get configDeps dep = Some decl \<and> get decl ''git'' = None
      \<longrightarrow> add_dep configDeps dep deps = Inr deps)
   \<and> (scan_manifests E files [] = Inr deps' \<and> indexed_under deps' key d
      \<longrightarrow> (\<exists>manifest \<in> set files. \<exists>configToml configDeps decl git.
             read_manifest E manifest = Inr configToml
             \<and> config_deps configToml = Some configDeps \<and> d \<in> set (object_keys configDeps)
             \<and> get configDeps d = Some decl \<and> get decl ''git'' = Some git \<and> js_truthy git))"
proof (intro conjI impI)
  assume "get configDeps dep = Some decl \<and> get decl ''git'' = None"
  then show "add_dep configDeps dep deps = Inr deps"
    by (simp add: add_dep_def truthy_def)
next
  assume a: "scan_manifests E files [] = Inr deps' \<and> indexed_under deps' key d"
  have "\<not> indexed_under [] key d" by (simp add: indexed_under_def)
  with a scan_manifests_origin[of E files "[]" deps' key d]
  show "\<exists>manifest \<in> set files. \<exists>configToml configDeps decl git.
             read_manifest E manifest = Inr configToml
             \<and> config_deps configToml = Some configDeps \<and> d \<in> set (object_keys configDeps)
             \<and> get configDeps d = Some decl \<and> get decl ''git'' = Some git \<and> js_truthy git"
    by blast
qed

theorem no_git_field_not_indexed_witness:
  "add_dep (TTable [(''serde'', TString ''1.0''),
                    (''local'', TTable [(''path'', TString ''../local'')])]) ''local'' []
     = Inr []
   \<and> scan_manifests sample_env [''repo/Cargo.toml'', ''repo/a/Cargo.toml'', ''repo/b/Cargo.toml''] []
     = Inr [(''https://example.com/baz#master'', [''baz'']),
            (''https://example.com/foo#dev'', [''foo'', ''bar''])]
   \<and> (\<exists>manifest \<in> set [''repo/Cargo.toml'', ''repo/a/Cargo.toml'', ''repo/b/Cargo.toml''].
        \<exists>configToml configDeps decl git.
          read_manifest sample_env manifest = Inr configToml
          \<and> config_deps configToml = Some configDeps \<and> ''bar'' \<in> set (object_keys configDeps)
          \<and> get configDeps ''bar'' = Some decl \<and> get decl ''git'' = Some git \<and> js_truthy git)"
proof -
  have s: "scan_manifests sample_env [''repo/Cargo.toml'', ''repo/a/Cargo.toml'', ''repo/b/Cargo.toml''] []
     = Inr [(''https://example.com/baz#master'', [''baz'']),
            (''https://example.com/foo#dev'', [''foo'', ''bar''])]"
    by (simp add: sample_env_def sample_manifest_def manifest_defs)
  have i: "indexed_under [(''https://example.com/baz#master'', [''baz'']),
            (''https://example.com/foo#dev'', [''foo'', ''bar''])] ''https://example.com/foo#dev'' ''bar''"
    by (simp add: indexed_under_def)
  have g: "get (TTable [(''serde'', TString ''1.0''),
                    (''local'', TTable [(''path'', TString ''../local'')])]) ''local''
             = Some (TTable [(''path'', TString ''../local'')])
           \<and> get (TTable [(''path'', TString ''../local'')]) ''git'' = None"
    by simp
  from no_git_field_not_indexed[of
         "TTable [(''serde'', TString ''1.0''), (''local'', TTable [(''path'', TString ''../local'')])]"
         "''local''" "TTable [(''path'', TString ''../local'')]" "[]" sample_env
         "[''repo/Cargo.toml'', ''repo/a/Cargo.toml'', ''repo/b/Cargo.toml'']"
         "[(''https://example.com/baz#master'', [''baz'']),
           (''https://example.com/foo#dev'', [''foo'', ''bar''])]"
         "''https://example.com/foo#dev''" "''bar''"] s i g
  show ?thesis by blast
qed

section \<open>Properties of the lockfile scan and of the upstream check\<close>

lemmas lock_defs =
  scan_lock_def split_def scan_line_def trim_def is_space_def startsWith_def quoted_here_def
  run_until_def push_under_def source_key_def object_prototype_keys_def

lemmas source_defs =
  source_match_def source_here_def run_until_def is_dot_def after_repo_def branch_here_def
  is_word_def api_url_def




text \<open>
  C1. The loop pushes a package only when the next block starts and nothing pushes the
  buffer after the last line, so the last package of a lockfile is missing from the
  index: of the two packages of this lockfile only \<open>alpha\<close> is indexed.
\<close>

theorem last_package_dropped:
  \<open>scan_lock short_lock = Inr [(''registry+crates'', [''alpha''])]\<close>
  by (simp add: short_lock_def lock_defs)

text \<open>
  C3. The buffer is never reset when a block starts, so a package without a \<open>source\<close>
  line keeps the source of the block before it: \<open>beta\<close> is indexed under the source of
  \<open>alpha\<close> and there is no \<open>null\<close> key.
\<close>

theorem source_carried_over:
  \<open>scan_lock sample_lock
     = Inr [(''git+https://github.com/o/r?branch=main#abc123'', [''alpha'', ''beta''])]\<close>
  by (simp add: sample_lock_def lock_defs)

section \<open>Errors at the top level\<close>

lemma catch_console_error_fulfilled: "snd (snd (catch_console_error m)) = Inr ()"
  by (cases m) (auto simp: catch_console_error_def split: sum.splits)






lemma walk_fails_unreadable:
  "deepReadDir J dp ig m t = Inl e \<Longrightarrow> unreadable_reached J dp ig t"
  "deepReadDir_all J dp ig m es = Inl e \<Longrightarrow> unreadable_reached_all J dp ig es"
proof (induction J dp ig t and J dp ig es arbitrary: e and e rule: unreadable_reached_unreadable_reached_all.induct)
  case (6 J dirPath ignoreFn n t es)
  then show ?case by (auto split: sum.splits if_splits)
qed (auto split: sum.splits)



























text \<open>The whole command on the sample checkout, with the lockfile check and in verbose mode.\<close>

lemma sample_dependencies_run:
  "cmdDependencies sample_env ''repo'' True True =
     ([LogArgs ''repo'' True True,
       LogCfg (Some (CfgString ''git@github.com:nbaztec/subsgrade.git'')),
       LogStr ''Cargo.toml'',
       LogJson [(''https://example.com/baz#master'', [''baz'']),
                (''https://example.com/foo#dev'', [''foo'', ''bar''])],
       LogStr ''Cargo.lock'',
       LogJson [(''git+https://github.com/o/r?branch=main#abc123'', [''alpha'', ''beta''])],
       LogStr (''SHA error! The latest commit hash is def456 for repo o/r, branch ''
           @ [CHR 0x27] @ ''main'' @ [CHR 0x27] @ '', got abc123: '' @ [CHR 0x0A, CHR 0x09]
           @ ''git+https://github.com/o/r?branch=main#abc123'')],
      Inr ())"
  by (simp add: cmdDependencies_def check_lock_def print_index_def own_entries_def and_then_def
      lift_def console_log_def ret_def throw_def sample_env_def sample_config_def sample_tree_def
      manifest_ignore_def manifest_match_def sample_manifest_def manifest_defs
      sample_lock_file_def sample_lock_def lock_defs verify_source_def source_defs
      sample_api_def shown_def)

end
